theory Spec2Isabelle
  imports Complex_Main "HOL-Library.Sublist"
begin

section \<open>Strings\<close>

text \<open>
  Instruction texts are modelled as \<^typ>\<open>string\<close>, one \<^typ>\<open>char\<close> per code unit.
  The definitions follow ECMAScript on the ASCII range, which is where the keywords and
  the pattern of \<open>App.tsx\<close> live; code units from 128 on are left unchanged by
  \<open>toLowerCase\<close> and are neither white space nor line terminators here.
\<close>

definition isLineTerminator :: "char \<Rightarrow> bool" where
  "isLineTerminator c = (c = CHR 0x0A \<or> c = CHR 0x0D)"

text \<open>The class \<open>\s\<close>, and what \<open>trim\<close> strips: TAB, LF, VT, FF, CR and space.\<close>

definition isWhiteSpace :: "char \<Rightarrow> bool" where
  "isWhiteSpace c =
     (c = CHR 0x09 \<or> c = CHR 0x0A \<or> c = CHR 0x0B \<or> c = CHR 0x0C \<or> c = CHR 0x0D \<or> c = CHR '' '')"

definition toLowerChar :: "char \<Rightarrow> char" where
  "toLowerChar c =
     (let n = (of_char c :: nat) in if 65 \<le> n \<and> n \<le> 90 then char_of (n + 32) else c)"

definition toLowerCase :: "string \<Rightarrow> string" where
  "toLowerCase s = map toLowerChar s"

text \<open>\<open>String.prototype.includes\<close>: the needle occurs at some position of the text.\<close>

fun includes_str :: "string \<Rightarrow> string \<Rightarrow> bool" where
  "includes_str [] sub = prefix sub []"
| "includes_str (c # s) sub = (prefix sub (c # s) \<or> includes_str s sub)"

definition trim :: "string \<Rightarrow> string" where
  "trim s = rev (dropWhile isWhiteSpace (rev (dropWhile isWhiteSpace s)))"


section \<open>The road-name pattern\<close>

text \<open>
  \<^verbatim>\<open>instruction.match(/(?:on|onto|along)\s+([^,.]+?)(?:\s|$|,|.)/i)\<close>

  The matcher below is the backtracking search of a JavaScript regular expression, written
  out for this pattern. Every function returns the captures of group 1 of the successful
  matches in the order in which backtracking finds them, so the head of the list is the
  capture that \<open>match\<close> reports.
\<close>

definition prepositions :: "string list" where
  "prepositions = [''on'', ''onto'', ''along'']"

text \<open>
  The closing group \<^verbatim>\<open>(?:\s|$|,|.)\<close> at the rest \<open>r\<close> of the text. The last
  alternative is an unescaped dot: any code unit that is not a line terminator.
\<close>

definition terminator :: "string \<Rightarrow> bool" where
  "terminator r =
     (case r of
        [] \<Rightarrow> True
      | c # _ \<Rightarrow> isWhiteSpace c \<or> c = CHR '','' \<or> \<not> isLineTerminator c)"

definition notCommaDot :: "char \<Rightarrow> bool" where
  "notCommaDot c = (c \<noteq> CHR '','' \<and> c \<noteq> CHR ''.'')"

text \<open>
  The capturing group \<^verbatim>\<open>([^,.]+?)\<close> is lazy: it tries one code unit first and takes
  one more only when the closing group fails behind it.
\<close>

definition lazyGroup :: "string \<Rightarrow> string list" where
  "lazyGroup r =
     map (\<lambda>m. take m r)
       (filter (\<lambda>m. terminator (drop m r)) [1 ..< Suc (length (takeWhile notCommaDot r))])"

text \<open>
  \<^verbatim>\<open>\s+\<close> is greedy: it takes the whole run of white space first and gives it back one
  code unit at a time.
\<close>

definition greedySpaces :: "string \<Rightarrow> string list" where
  "greedySpaces r =
     concat (map (\<lambda>k. lazyGroup (drop k r))
       (rev [1 ..< Suc (length (takeWhile isWhiteSpace r))]))"

text \<open>
  A match that starts at the head of \<open>s\<close>: the alternatives of \<^verbatim>\<open>(?:on|onto|along)\<close>
  in their order, compared without regard to letter case (flag \<open>i\<close>).
\<close>

definition matchAt :: "string \<Rightarrow> string list" where
  "matchAt s =
     concat (map (\<lambda>p. if prefix p (toLowerCase (take (length p) s))
                        then greedySpaces (drop (length p) s) else [])
       prepositions)"

text \<open>The leftmost match wins; \<open>None\<close> is the \<open>null\<close> of \<open>match\<close>.\<close>

fun roadMatch :: "string \<Rightarrow> string option" where
  "roadMatch [] = (case matchAt [] of c # _ \<Rightarrow> Some c | [] \<Rightarrow> None)"
| "roadMatch (x # t) = (case matchAt (x # t) of c # _ \<Rightarrow> Some c | [] \<Rightarrow> roadMatch t)"

declare roadMatch.simps [simp del]


section \<open>Numbers\<close>

text \<open>
  A JavaScript number is an IEEE 754 binary64 value. The finite ones are rationals; the
  two zeros are identified, which none of the operations used here can tell apart.
\<close>

datatype number = Finite rat | PosInfinity | NegInfinity | NaN

text \<open>The largest \<open>k\<close> with \<open>2 ^ k \<le> n\<close>, for \<open>n \<ge> 1\<close>.\<close>

fun ilog2_nat :: "nat \<Rightarrow> nat" where
  "ilog2_nat n = (if n < 2 then 0 else Suc (ilog2_nat (n div 2)))"

declare ilog2_nat.simps [simp del]

text \<open>The binary exponent \<open>\<lfloor>log\<^sub>2 a\<rfloor>\<close> of a positive rational.\<close>

definition ilog2 :: "rat \<Rightarrow> int" where
  "ilog2 a =
     (if 1 \<le> a then int (ilog2_nat (nat \<lfloor>a\<rfloor>))
      else - (int (ilog2_nat (nat \<lceil>1 / a\<rceil> - 1)) + 1))"

definition pow2 :: "int \<Rightarrow> rat" where
  "pow2 e = (if 0 \<le> e then 2 ^ nat e else 1 / 2 ^ nat (- e))"

definition roundHalfEven :: "rat \<Rightarrow> int" where
  "roundHalfEven x =
     (let f = \<lfloor>x\<rfloor>; d = x - of_int f
      in if d < 1 / 2 then f else if 1 / 2 < d then f + 1 else if even f then f else f + 1)"

text \<open>
  Rounding a real result to binary64, to nearest with ties to even: 53 significant bits,
  the exponent of the last bit no smaller than \<open>-1074\<close> (subnormal numbers), overflow to
  an infinity from \<open>2 ^ 1024\<close> on.
\<close>

definition fl :: "rat \<Rightarrow> number" where
  "fl q =
     (if q = 0 then Finite 0
      else
        let a = \<bar>q\<bar>;
            e = max (ilog2 a - 52) (- 1074);
            r = of_int (roundHalfEven (a / pow2 e)) * pow2 e
        in if 2 ^ 1024 \<le> r then (if 0 < q then PosInfinity else NegInfinity)
           else Finite (if 0 < q then r else - r))"

text \<open>The product of two numbers, \<open>x * y\<close>.\<close>

fun number_times :: "number \<Rightarrow> number \<Rightarrow> number" where
  "number_times (Finite a) (Finite b) = fl (a * b)"
| "number_times NaN _ = NaN"
| "number_times _ NaN = NaN"
| "number_times (Finite a) PosInfinity =
     (if a = 0 then NaN else if 0 < a then PosInfinity else NegInfinity)"
| "number_times (Finite a) NegInfinity =
     (if a = 0 then NaN else if 0 < a then NegInfinity else PosInfinity)"
| "number_times PosInfinity (Finite b) =
     (if b = 0 then NaN else if 0 < b then PosInfinity else NegInfinity)"
| "number_times NegInfinity (Finite b) =
     (if b = 0 then NaN else if 0 < b then NegInfinity else PosInfinity)"
| "number_times PosInfinity PosInfinity = PosInfinity"
| "number_times PosInfinity NegInfinity = NegInfinity"
| "number_times NegInfinity PosInfinity = NegInfinity"
| "number_times NegInfinity NegInfinity = PosInfinity"

text \<open>The comparison \<open>x > y\<close>; it is false as soon as one side is \<open>NaN\<close>.\<close>

fun number_gt :: "number \<Rightarrow> number \<Rightarrow> bool" where
  "number_gt NaN _ = False"
| "number_gt _ NaN = False"
| "number_gt (Finite a) (Finite b) = (b < a)"
| "number_gt PosInfinity PosInfinity = False"
| "number_gt PosInfinity _ = True"
| "number_gt _ PosInfinity = False"
| "number_gt NegInfinity _ = False"
| "number_gt _ NegInfinity = True"

text \<open>The decimal digits of a natural number, \<open>''0''\<close> for zero.\<close>

definition digitChars :: string where
  "digitChars = ''0123456789''"

fun digits :: "nat \<Rightarrow> string" where
  "digits n =
     (if n < 10 then [digitChars ! n] else digits (n div 10) @ [digitChars ! (n mod 10)])"

declare digits.simps [simp del]

text \<open>
  \<open>Number.prototype.toFixed(f)\<close>, after ECMA-262: the integer \<open>n\<close> nearest to
  \<open>x * 10 ^ f\<close> (the larger one of two), its digits padded with zeros to \<open>f + 1\<close> places,
  and a point before the last \<open>f\<close> of them. From \<open>10 ^ 21\<close> on the result is the
  number's \<open>toString\<close>, in exponent notation; that conversion belongs to the JavaScript
  engine and is the parameter \<open>toStr\<close>.
\<close>

definition toFixed :: "(rat \<Rightarrow> string) \<Rightarrow> nat \<Rightarrow> number \<Rightarrow> string" where
  "toFixed toStr f v =
     (case v of
        NaN \<Rightarrow> ''NaN''
      | PosInfinity \<Rightarrow> ''Infinity''
      | NegInfinity \<Rightarrow> ''-Infinity''
      | Finite x \<Rightarrow>
          (let s = (if x < 0 then ''-'' else []);
               a = \<bar>x\<bar>
           in if 10 ^ 21 \<le> a then s @ toStr a
              else
                let n = nat \<lfloor>a * 10 ^ f + 1 / 2\<rfloor>;
                    m = digits n;
                    m = (if length m \<le> f then replicate (f + 1 - length m) (CHR ''0'') @ m else m);
                    k = length m
                in if f = 0 then s @ m else s @ take (k - f) m @ ''.'' @ drop (k - f) m))"


section \<open>The directions response and the simplified directions\<close>

text \<open>
  The interfaces of \<open>App.tsx\<close>. Field names carry the name of their interface where two
  interfaces share one (\<open>instruction\<close>, \<open>distance\<close>); \<open>DirectionStep\<close>, the output, keeps
  the names of the source. A leg has the \<open>distance\<close> that \<open>handleSubmit\<close> reads from it.
\<close>

record DirectionStep =
  step :: nat
  instruction :: string
  distance :: string

record Maneuver =
  maneuver_instruction :: string

record MapboxStep =
  step_maneuver :: Maneuver
  step_distance :: number

record Leg =
  leg_steps :: "MapboxStep list"
  leg_distance :: number

record MapboxRoute =
  route_legs :: "Leg list"
  route_coordinates :: "(number \<times> number) list"

text \<open>\<open>routes\<close> is \<open>None\<close> when the body has no such field.\<close>

record MapboxDirectionsResponse =
  routes :: "MapboxRoute list option"

text \<open>The literal \<open>0.000621371\<close> is the binary64 number nearest to it.\<close>

definition mileFactor :: number where
  "mileFactor = fl (621371 / 1000000000)"

text \<open>\<^verbatim>\<open>`${(d * 0.000621371).toFixed(1)} mi`\<close>\<close>

definition milesText :: "(rat \<Rightarrow> string) \<Rightarrow> number \<Rightarrow> string" where
  "milesText toStr d = toFixed toStr 1 (number_times d mileFactor) @ '' mi''"

text \<open>The significance test of a step, on the lower-cased instruction.\<close>

definition isSignificant :: "string \<Rightarrow> number \<Rightarrow> bool" where
  "isSignificant instr d =
     (includes_str instr ''highway'' \<or>
      includes_str instr ''freeway'' \<or>
      includes_str instr ''interstate'' \<or>
      includes_str instr ''i-'' \<or>
      includes_str instr ''route'' \<or>
      includes_str instr ''us-'' \<or>
      includes_str instr ''sr-'' \<or>
      number_gt d (Finite 1000))"

text \<open>
  The body of the \<open>forEach\<close> callback, on the two variables it updates:
  \<open>simplifiedSteps\<close> and \<open>stepCounter\<close>.
\<close>

definition visitStep ::
  "(rat \<Rightarrow> string) \<Rightarrow> MapboxStep \<Rightarrow> DirectionStep list \<times> nat \<Rightarrow> DirectionStep list \<times> nat" where
  "visitStep toStr st acc =
     (case acc of (simplifiedSteps, stepCounter) \<Rightarrow>
        let instr = toLowerCase (maneuver_instruction (step_maneuver st)) in
        (case roadMatch instr of
           Some g \<Rightarrow>
             if isSignificant instr (step_distance st)
             then (simplifiedSteps @
                     [\<lparr>step = stepCounter, instruction = trim g,
                       distance = milesText toStr (step_distance st)\<rparr>],
                   stepCounter + 1)
             else (simplifiedSteps, stepCounter)
         | None \<Rightarrow> (simplifiedSteps, stepCounter)))"

fun forEachStep ::
  "(rat \<Rightarrow> string) \<Rightarrow> MapboxStep list \<Rightarrow> DirectionStep list \<times> nat \<Rightarrow> DirectionStep list \<times> nat" where
  "forEachStep toStr [] acc = acc"
| "forEachStep toStr (st # rest) acc = forEachStep toStr rest (visitStep toStr st acc)"

text \<open>
  The simplified directions of a leg: lines 163 to 202 of \<open>handleSubmit\<close>, from the
  empty list and the counter \<open>1\<close> to the value passed to \<open>setDirections\<close>.
\<close>

definition simplifySteps :: "(rat \<Rightarrow> string) \<Rightarrow> Leg \<Rightarrow> DirectionStep list" where
  "simplifySteps toStr leg =
     (case forEachStep toStr (leg_steps leg) ([], 1) of
        (simplifiedSteps, stepCounter) \<Rightarrow>
          if length simplifiedSteps = 0
          then simplifiedSteps @
                 [\<lparr>step = 1, instruction = ''Direct route'',
                   distance = milesText toStr (leg_distance leg)\<rparr>]
          else simplifiedSteps)"


section \<open>The state of the component\<close>

datatype SelectionStep = Start | End | Complete

record Coords =
  lat :: number
  lng :: number

text \<open>
  Of the map object the model keeps its centre and the source \<open>'route'\<close> with its layer
  (\<open>None\<close>: there is none). The calls into the mapping library are taken to succeed;
  the viewport and the controls are not modelled.
\<close>

record MapboxMap =
  center :: Coords
  routeSource :: "(number \<times> number) list option"

text \<open>
  The \<open>useState\<close> cells and the refs of \<open>App\<close>; a marker ref holds the position of its
  marker. The last three fields record what the component does to the outside: the
  alerts shown, the lines logged, and the directions requests sent (origin, destination).
\<close>

record App =
  startLocation :: string
  endLocation :: string
  directions :: "DirectionStep list option"
  userCoords :: "Coords option"
  isLoading :: bool
  loadingLocation :: bool
  currentStep :: SelectionStep
  mapRef :: "MapboxMap option"
  startMarkerRef :: "Coords option"
  endMarkerRef :: "Coords option"
  alerts :: "string list"
  console :: "string list"
  requests :: "(Coords \<times> Coords) list"

definition initialApp :: App where
  "initialApp =
     \<lparr>startLocation = [], endLocation = [], directions = None, userCoords = None,
      isLoading = False, loadingLocation = True, currentStep = Start, mapRef = None,
      startMarkerRef = None, endMarkerRef = None, alerts = [], console = [], requests = []\<rparr>"


subsection \<open>Selecting the two points\<close>

text \<open>\<^verbatim>\<open>`${coords.lat.toFixed(6)}, ${coords.lng.toFixed(6)}`\<close>\<close>

definition coordsText :: "(rat \<Rightarrow> string) \<Rightarrow> Coords \<Rightarrow> string" where
  "coordsText toStr coords = toFixed toStr 6 (lat coords) @ '', '' @ toFixed toStr 6 (lng coords)"

definition handleMapClick :: "(rat \<Rightarrow> string) \<Rightarrow> Coords \<Rightarrow> App \<Rightarrow> App" where
  "handleMapClick toStr coords s =
     (if mapRef s = None then s
      else
        (case currentStep s of
           Start \<Rightarrow>
             s\<lparr>startMarkerRef := Some coords,
               startLocation := coordsText toStr coords,
               currentStep := End\<rparr>
         | End \<Rightarrow>
             s\<lparr>endMarkerRef := Some coords,
               endLocation := coordsText toStr coords,
               currentStep := Complete\<rparr>
         | Complete \<Rightarrow> s))"

definition removeRoute :: "MapboxMap \<Rightarrow> MapboxMap" where
  "removeRoute m = m\<lparr>routeSource := None\<rparr>"

definition resetSelection :: "App \<Rightarrow> App" where
  "resetSelection s =
     s\<lparr>currentStep := Start,
       startLocation := [],
       endLocation := [],
       directions := None,
       startMarkerRef := None,
       endMarkerRef := None,
       mapRef := map_option removeRoute (mapRef s)\<rparr>"


subsection \<open>Requesting directions\<close>

text \<open>
  What the \<open>await\<close>s of \<open>handleSubmit\<close> come back with: \<open>fetch\<close> rejects, or it
  resolves to a response with its \<open>ok\<close> flag, whose \<open>json()\<close> rejects (\<open>None\<close>) or
  resolves to the body.
\<close>

datatype FetchResult =
  NetworkFailure
| HttpResponse bool "MapboxDirectionsResponse option"

definition drawRoute :: "(number \<times> number) list \<Rightarrow> App \<Rightarrow> App" where
  "drawRoute coordinates s =
     (case mapRef s of
        None \<Rightarrow> s
      | Some m \<Rightarrow> s\<lparr>mapRef := Some (m\<lparr>routeSource := Some coordinates\<rparr>)\<rparr>)"

text \<open>\<open>handleSubmit\<close> up to its first \<open>await\<close>: the guard, the loading flag, the request.\<close>

definition handleSubmit :: "App \<Rightarrow> App" where
  "handleSubmit s =
     (case (startMarkerRef s, endMarkerRef s) of
        (Some startLngLat, Some endLngLat) \<Rightarrow>
          if startLocation s = [] \<or> endLocation s = [] then s
          else s\<lparr>isLoading := True, requests := requests s @ [(startLngLat, endLngLat)]\<rparr>
      | _ \<Rightarrow> s)"

text \<open>The \<open>catch\<close> block.\<close>

definition catchError :: "App \<Rightarrow> App" where
  "catchError s =
     s\<lparr>console := console s @ [''Error fetching route:''],
       isLoading := False,
       alerts := alerts s @ [''Failed to calculate route. Please try again.'']\<rparr>"

text \<open>
  \<open>handleSubmit\<close> from the first \<open>await\<close> on, in the state in which the result arrives.
  Reading \<open>route.legs[0].steps\<close> of a route without legs throws, into the \<open>catch\<close> block.
\<close>

definition handleSubmit_resume :: "(rat \<Rightarrow> string) \<Rightarrow> FetchResult \<Rightarrow> App \<Rightarrow> App" where
  "handleSubmit_resume toStr res s =
     (case res of
        NetworkFailure \<Rightarrow> catchError s
      | HttpResponse ok body \<Rightarrow>
          if \<not> ok then catchError s
          else
            (case body of
               None \<Rightarrow> catchError s
             | Some data \<Rightarrow>
                 (case routes data of
                    Some (route # _) \<Rightarrow>
                      (case route_legs route of
                         [] \<Rightarrow> catchError s
                       | leg # _ \<Rightarrow>
                           (drawRoute (route_coordinates route)
                              (s\<lparr>directions := Some (simplifySteps toStr leg)\<rparr>))
                           \<lparr>isLoading := False\<rparr>)
                  | _ \<Rightarrow> s\<lparr>isLoading := False\<rparr>)))"

text \<open>
  The form is submitted through its submit button, which carries
  \<^verbatim>\<open>disabled={isLoading || currentStep !== 'complete'}\<close>: a disabled button submits nothing.
\<close>

definition submitDisabled :: "App \<Rightarrow> bool" where
  "submitDisabled s = (isLoading s \<or> currentStep s \<noteq> Complete)"

definition submitForm :: "App \<Rightarrow> App" where
  "submitForm s = (if submitDisabled s then s else handleSubmit s)"


subsection \<open>Locating the user and creating the map\<close>

text \<open>
  What the browser answers to the first effect: \<open>navigator.geolocation\<close> is missing, or
  \<open>getCurrentPosition\<close> calls its error callback, or its success callback with a position.
\<close>

datatype Geolocation = Unsupported | Denied | Position Coords

text \<open>The first effect itself, up to its \<open>return\<close>.\<close>

definition geolocationEffect :: "Geolocation \<Rightarrow> App \<Rightarrow> App" where
  "geolocationEffect g s =
     (case g of
        Unsupported \<Rightarrow>
          s\<lparr>console := console s @ [''Geolocation is not supported by your browser'']\<rparr>
      | _ \<Rightarrow> s\<lparr>console := console s @ [''User location obtained:'']\<rparr>)"

text \<open>The callback that \<open>getCurrentPosition\<close> invokes later; none when there is no geolocation.\<close>

definition geolocationCallback :: "Geolocation \<Rightarrow> App \<Rightarrow> App" where
  "geolocationCallback g s =
     (case g of
        Unsupported \<Rightarrow> s
      | Denied \<Rightarrow>
          s\<lparr>console := console s @ [''Unable to retrieve your location''],
            loadingLocation := False\<rparr>
      | Position coords \<Rightarrow>
          s\<lparr>userCoords := Some coords, loadingLocation := False\<rparr>)"

text \<open>
  The second effect, with the dependency \<open>loadingLocation\<close>. The container \<open>div\<close> is
  rendered, and \<open>mapContainerRef\<close> set, exactly when \<open>loadingLocation\<close> is false.
\<close>

definition mapEffect :: "App \<Rightarrow> App" where
  "mapEffect s =
     (let s = s\<lparr>console := console s @ [''userCoords changed:'']\<rparr> in
      case userCoords s of
        Some coords \<Rightarrow>
          if \<not> loadingLocation s \<and> mapRef s = None \<and> loadingLocation s \<noteq> True
          then s\<lparr>mapRef := Some \<lparr>center = coords, routeSource = None\<rparr>\<rparr>
          else s
      | None \<Rightarrow> s)"

text \<open>Its cleanup removes the map; the marker objects stay in their refs.\<close>

definition mapCleanup :: "App \<Rightarrow> App" where
  "mapCleanup s = s\<lparr>mapRef := None\<rparr>"

text \<open>
  Mounting the component: both effects run after the first render; when the callback has
  changed \<open>loadingLocation\<close>, the second effect is cleaned up and runs again.
\<close>

definition mount :: "Geolocation \<Rightarrow> App" where
  "mount g =
     (let s = mapEffect (geolocationEffect g initialApp);
          s' = geolocationCallback g s
      in if loadingLocation s' \<noteq> loadingLocation s then mapEffect (mapCleanup s') else s')"


section \<open>Notions used in the statements\<close>

text \<open>The condition \<^verbatim>\<open>roadMatch && isSignificant\<close> under which a step is pushed.\<close>

definition keepsStep :: "MapboxStep \<Rightarrow> bool" where
  "keepsStep st =
     (let instr = toLowerCase (maneuver_instruction (step_maneuver st))
      in roadMatch instr \<noteq> None \<and> isSignificant instr (step_distance st))"

text \<open>The entry pushed for a step when the counter is \<open>k\<close>.\<close>

definition entryOf :: "(rat \<Rightarrow> string) \<Rightarrow> nat \<Rightarrow> MapboxStep \<Rightarrow> DirectionStep" where
  "entryOf toStr k st =
     \<lparr>step = k,
      instruction =
        (case roadMatch (toLowerCase (maneuver_instruction (step_maneuver st))) of
           Some g \<Rightarrow> trim g
         | None \<Rightarrow> []),
      distance = milesText toStr (step_distance st)\<rparr>"

fun entriesFrom :: "(rat \<Rightarrow> string) \<Rightarrow> nat \<Rightarrow> MapboxStep list \<Rightarrow> DirectionStep list" where
  "entriesFrom toStr k [] = []"
| "entriesFrom toStr k (st # sts) = entryOf toStr k st # entriesFrom toStr (Suc k) sts"

definition directRoute :: "(rat \<Rightarrow> string) \<Rightarrow> Leg \<Rightarrow> DirectionStep" where
  "directRoute toStr leg =
     \<lparr>step = 1, instruction = ''Direct route'', distance = milesText toStr (leg_distance leg)\<rparr>"

text \<open>The keywords of the significance test.\<close>

definition significanceKeywords :: "string list" where
  "significanceKeywords = [''highway'', ''freeway'', ''interstate'', ''i-'', ''route'', ''us-'', ''sr-'']"

text \<open>The comparison \<open>x \<le> y\<close> of two numbers.\<close>

fun number_le :: "number \<Rightarrow> number \<Rightarrow> bool" where
  "number_le NaN _ = False"
| "number_le _ NaN = False"
| "number_le (Finite a) (Finite b) = (a \<le> b)"
| "number_le NegInfinity _ = True"
| "number_le _ PosInfinity = True"
| "number_le PosInfinity _ = False"
| "number_le _ NegInfinity = False"

text \<open>The position of a selection state in \<open>'start'\<close>, \<open>'end'\<close>, \<open>'complete'\<close>.\<close>

fun stepRank :: "SelectionStep \<Rightarrow> nat" where
  "stepRank Start = 0"
| "stepRank End = 1"
| "stepRank Complete = 2"

text \<open>
  States to run the component on: located at \<open>home\<close>, then after a press at \<open>pointA\<close>,
  after a second one at \<open>pointB\<close>, and after submitting the form.
\<close>

definition home :: Coords where
  "home = \<lparr>lat = Finite 37, lng = Finite (- 122)\<rparr>"

definition pointA :: Coords where
  "pointA = \<lparr>lat = Finite 38, lng = Finite (- 121)\<rparr>"

definition pointB :: Coords where
  "pointB = \<lparr>lat = Finite 34, lng = Finite (- 118)\<rparr>"

definition locatedApp :: App where
  "locatedApp = mount (Position home)"

definition pickedApp :: App where
  "pickedApp = handleMapClick (\<lambda>x. []) pointA locatedApp"

definition readyApp :: App where
  "readyApp = handleMapClick (\<lambda>x. []) pointB pickedApp"

definition loadingApp :: App where
  "loadingApp = handleSubmit readyApp"

definition mapboxStep :: "string \<Rightarrow> rat \<Rightarrow> MapboxStep" where
  "mapboxStep instr meters =
     \<lparr>step_maneuver = \<lparr>maneuver_instruction = instr\<rparr>, step_distance = Finite meters\<rparr>"

text \<open>Steps to run the simplification on.\<close>

definition stepI5 :: MapboxStep where
  "stepI5 = mapboxStep ''Continue on I-5'' 1609"


definition stepMain :: MapboxStep where
  "stepMain = mapboxStep ''Turn left onto Main St'' 300"

definition stepMerge101 :: MapboxStep where
  "stepMerge101 = mapboxStep ''Merge onto Highway 101, then keep left'' 1609"

section \<open>What the pattern captures\<close>

text \<open>
  The closing group accepts any rest of the text: at the end \<open>$\<close> matches, a line
  terminator is white space, and every other code unit is matched by the dot.
\<close>

lemma terminator_always: "terminator r"
  by (cases r) (auto simp: terminator_def isWhiteSpace_def isLineTerminator_def)

lemma lazyGroup_eq:
  "lazyGroup r = map (\<lambda>m. take m r) [1 ..< Suc (length (takeWhile notCommaDot r))]"
  by (simp add: lazyGroup_def terminator_always)

lemma hd_lazyGroup:
  assumes "lazyGroup r \<noteq> []"
  shows "length (hd (lazyGroup r)) = 1"
proof -
  have pos: "takeWhile notCommaDot r \<noteq> []"
  proof
    assume "takeWhile notCommaDot r = []"
    then have "lazyGroup r = []" by (simp add: lazyGroup_eq)
    with assms show False by simp
  qed
  then have "r \<noteq> []" by auto
  moreover from pos have "hd (lazyGroup r) = take 1 r"
    unfolding lazyGroup_eq by (subst upt_rec) simp
  ultimately show ?thesis by (cases r) simp_all
qed

lemma hd_concat:
  assumes "\<forall>l \<in> set ls. l \<noteq> [] \<longrightarrow> P (hd l)" and "concat ls \<noteq> []"
  shows "P (hd (concat ls))"
  using assms
proof (induction ls)
  case Nil
  then show ?case by simp
next
  case (Cons l ls)
  then show ?case by (cases "l = []") simp_all
qed

lemma hd_greedySpaces:
  assumes "greedySpaces r \<noteq> []"
  shows "length (hd (greedySpaces r)) = 1"
proof -
  let ?ls = "map (\<lambda>k. lazyGroup (drop k r)) (rev [1 ..< Suc (length (takeWhile isWhiteSpace r))])"
  have "\<forall>l \<in> set ?ls. l \<noteq> [] \<longrightarrow> length (hd l) = 1"
    by (auto simp: hd_lazyGroup)
  moreover from assms have "concat ?ls \<noteq> []"
    unfolding greedySpaces_def .
  ultimately have "length (hd (concat ?ls)) = 1"
    by (rule hd_concat)
  then show ?thesis
    unfolding greedySpaces_def .
qed

lemma hd_matchAt:
  assumes "matchAt s \<noteq> []"
  shows "length (hd (matchAt s)) = 1"
proof -
  let ?ls = "map (\<lambda>p. if prefix p (toLowerCase (take (length p) s))
                        then greedySpaces (drop (length p) s) else []) prepositions"
  have "\<forall>l \<in> set ?ls. l \<noteq> [] \<longrightarrow> length (hd l) = 1"
    by (auto simp: hd_greedySpaces)
  moreover from assms have "concat ?ls \<noteq> []"
    unfolding matchAt_def .
  ultimately have "length (hd (concat ?ls)) = 1"
    by (rule hd_concat)
  then show ?thesis
    unfolding matchAt_def .
qed

text \<open>
  So the lazy group never grows beyond its first code unit: whatever the instruction,
  the captured road name is one code unit long.
\<close>

lemma roadMatch_one_code_unit: "roadMatch s = Some g \<Longrightarrow> length g = 1"
proof (induction s)
  case Nil
  then show ?case
    using hd_matchAt [of "[]"] by (auto simp: roadMatch.simps split: list.splits)
next
  case (Cons x t)
  then show ?case
    using hd_matchAt [of "x # t"] by (auto simp: roadMatch.simps split: list.splits)
qed




section \<open>Computing with numbers\<close>

text \<open>The binary exponent is determined by the two powers of two around the number.\<close>

lemma ilog2_nat_unique: "2 ^ k \<le> n \<Longrightarrow> n < 2 ^ Suc k \<Longrightarrow> ilog2_nat n = k"
proof (induction k arbitrary: n)
  case 0
  then show ?case by (simp add: ilog2_nat.simps)
next
  case (Suc k)
  from Suc.prems have "2 ^ k \<le> n div 2" "n div 2 < 2 ^ Suc k" by simp_all
  then have "ilog2_nat (n div 2) = k" by (rule Suc.IH)
  moreover have "(2::nat) \<le> 2 ^ Suc k" by simp
  with Suc.prems have "\<not> n < 2" by linarith
  ultimately show ?case by (subst ilog2_nat.simps) simp
qed

lemma pow2_pos: "0 < pow2 e"
  by (simp add: pow2_def)

lemma pow2_ge_1: "0 \<le> e \<Longrightarrow> 1 \<le> pow2 e"
  by (simp add: pow2_def)

lemma pow2_le_1: "e \<le> 0 \<Longrightarrow> pow2 e \<le> 1"
  by (simp add: pow2_def field_simps)

lemma ilog2_unique:
  assumes lo: "pow2 k \<le> a" and hi: "a < pow2 (k + 1)"
  shows "ilog2 a = k"
proof (cases "1 \<le> a")
  case True
  have k: "0 \<le> k"
  proof (rule ccontr)
    assume "\<not> 0 \<le> k"
    then have "pow2 (k + 1) \<le> 1" by (intro pow2_le_1) simp
    with hi True show False by simp
  qed
  define j where "j = nat k"
  from k have pk: "pow2 k = 2 ^ j" and pk1: "pow2 (k + 1) = 2 ^ Suc j"
    by (simp_all add: pow2_def j_def nat_add_distrib)
  have "(2::int) ^ j \<le> \<lfloor>a\<rfloor>"
    using lo unfolding pk by (simp add: le_floor_iff)
  then have 1: "2 ^ j \<le> nat \<lfloor>a\<rfloor>"
    by (simp add: le_nat_iff)
  have "\<lfloor>a\<rfloor> < (2::int) ^ Suc j"
    using hi unfolding pk1 by (simp add: floor_less_iff)
  then have 2: "nat \<lfloor>a\<rfloor> < 2 ^ Suc j"
    by (simp only: nat_less_numeral_power_cancel_iff)
  from 1 2 have "ilog2_nat (nat \<lfloor>a\<rfloor>) = j" by (rule ilog2_nat_unique)
  with True k show ?thesis by (simp add: ilog2_def j_def)
next
  case False
  have apos: "0 < a" using lo pow2_pos [of k] by simp
  have k: "k < 0"
  proof (rule ccontr)
    assume "\<not> k < 0"
    then have "1 \<le> pow2 k" by (intro pow2_ge_1) simp
    with lo False show False by simp
  qed
  define j where "j = nat (- k - 1)"
  from k have pk: "pow2 k = 1 / 2 ^ Suc j"
    by (simp add: pow2_def j_def Suc_nat_eq_nat_zadd1 algebra_simps)
  from k have pk1: "pow2 (k + 1) = 1 / 2 ^ j"
    by (cases "k = - 1") (simp_all add: pow2_def j_def algebra_simps)
  have "1 / a \<le> 2 ^ Suc j"
    using lo apos unfolding pk by (simp add: field_simps)
  then have "\<lceil>1 / a\<rceil> \<le> (2::int) ^ Suc j"
    by (simp add: ceiling_le_iff)
  then have "nat \<lceil>1 / a\<rceil> \<le> 2 ^ Suc j"
    by (simp only: nat_le_numeral_power_cancel_iff)
  moreover have "(0::nat) < 2 ^ Suc j" by simp
  ultimately have 2: "nat \<lceil>1 / a\<rceil> - 1 < 2 ^ Suc j" by linarith
  have "2 ^ j < 1 / a"
    using hi apos unfolding pk1 by (simp add: field_simps)
  then have "(2::int) ^ j < \<lceil>1 / a\<rceil>"
    by (simp add: less_ceiling_iff)
  then have "2 ^ j < nat \<lceil>1 / a\<rceil>"
    by (simp only: numeral_power_less_nat_cancel_iff)
  then have 1: "2 ^ j \<le> nat \<lceil>1 / a\<rceil> - 1" by linarith
  from 1 2 have "ilog2_nat (nat \<lceil>1 / a\<rceil> - 1) = j" by (rule ilog2_nat_unique)
  with False k show ?thesis by (simp add: ilog2_def j_def)
qed

lemma roundHalfEven_eval:
  assumes "\<bar>x - of_int n\<bar> < 1 / 2"
  shows "roundHalfEven x = n"
proof (cases "of_int n \<le> x")
  case True
  with assms have "\<lfloor>x\<rfloor> = n" by (intro floor_unique) linarith+
  with assms True show ?thesis by (simp add: roundHalfEven_def Let_def)
next
  case False
  have "rat_of_int (n - 1) = of_int n - 1" by simp
  with assms False have "\<lfloor>x\<rfloor> = n - 1" by (intro floor_unique) linarith+
  moreover from assms False have "1 / 2 < x - (of_int n - 1)" by linarith
  ultimately show ?thesis by (simp add: roundHalfEven_def Let_def)
qed

text \<open>
  A rounding in the normal range, from its exponent \<open>k\<close> and the integer \<open>n\<close> nearest
  to the scaled value.
\<close>

lemma fl_eval:
  assumes "0 < q" and "pow2 k \<le> q" and "q < pow2 (k + 1)" and "- 1022 \<le> k"
    and "\<bar>q / pow2 (k - 52) - of_int n\<bar> < 1 / 2"
    and "of_int n * pow2 (k - 52) < 2 ^ 1024"
  shows "fl q = Finite (of_int n * pow2 (k - 52))"
proof -
  from assms have "ilog2 q = k" by (intro ilog2_unique)
  moreover from assms have "max (k - 52) (- 1074) = k - 52" by simp
  moreover from assms have "roundHalfEven (q / pow2 (k - 52)) = n" by (intro roundHalfEven_eval)
  ultimately show ?thesis
    using assms(1,6) by (simp add: fl_def Let_def)
qed

text \<open>The exponent and the rounding, for every positive number.\<close>

lemma ilog2_nat_bounds: "0 < n \<Longrightarrow> 2 ^ ilog2_nat n \<le> n \<and> n < 2 ^ Suc (ilog2_nat n)"
proof (induction n rule: ilog2_nat.induct)
  case (1 n)
  show ?case
  proof (cases "n < 2")
    case True
    with "1.prems" show ?thesis by (simp add: ilog2_nat.simps [of n])
  next
    case False
    then have "0 < n div 2" by simp
    with False "1.IH" have "2 ^ ilog2_nat (n div 2) \<le> n div 2"
      and "n div 2 < 2 ^ Suc (ilog2_nat (n div 2))" by simp_all
    then have "2 * 2 ^ ilog2_nat (n div 2) \<le> n" and "n < 2 * 2 ^ Suc (ilog2_nat (n div 2))"
      by linarith+
    with False show ?thesis by (simp add: ilog2_nat.simps [of n])
  qed
qed

lemma pow2_powi: "pow2 e = 2 powi e"
  by (simp add: pow2_def power_int_def field_simps)

lemma pow2_add: "pow2 (a + b) = pow2 a * pow2 b"
  by (simp add: pow2_powi power_int_add)

lemma pow2_mono: "a \<le> b \<Longrightarrow> pow2 a \<le> pow2 b"
  unfolding pow2_powi by (rule power_int_increasing) simp_all

lemma ilog2_bounds:
  assumes "0 < a"
  shows "pow2 (ilog2 a) \<le> a \<and> a < pow2 (ilog2 a + 1)"
proof (cases "1 \<le> a")
  case True
  define n where "n = nat \<lfloor>a\<rfloor>"
  from True have n: "0 < n" and fl: "of_nat n = rat_of_int \<lfloor>a\<rfloor>"
    by (simp_all add: n_def)
  from ilog2_nat_bounds [OF n] have lo: "2 ^ ilog2_nat n \<le> n" and hi: "Suc n \<le> 2 ^ Suc (ilog2_nat n)"
    by simp_all
  from lo have "rat_of_nat (2 ^ ilog2_nat n) \<le> of_nat n" by (simp only: of_nat_le_iff)
  also have "\<dots> \<le> a" unfolding fl by simp
  finally have 1: "2 ^ ilog2_nat n \<le> a" by simp
  have "a < of_int \<lfloor>a\<rfloor> + 1" by linarith
  also have "\<dots> = rat_of_nat (Suc n)" using fl by simp
  also from hi have "\<dots> \<le> rat_of_nat (2 ^ Suc (ilog2_nat n))" by (simp only: of_nat_le_iff)
  finally have 2: "a < 2 ^ Suc (ilog2_nat n)" by simp
  from True 1 2 show ?thesis
    by (simp add: ilog2_def pow2_def n_def [symmetric] nat_add_distrib)
next
  case False
  define m where "m = nat \<lceil>1 / a\<rceil>"
  define j where "j = ilog2_nat (m - 1)"
  from False assms have inv: "1 < 1 / a" by (simp add: field_simps)
  then have "1 < \<lceil>1 / a\<rceil>" by (simp add: less_ceiling_iff)
  then have m: "0 < m - 1" and ce: "rat_of_nat m = of_int \<lceil>1 / a\<rceil>"
    by (simp_all add: m_def)
  from ilog2_nat_bounds [OF m] have lo: "2 ^ j \<le> m - 1" and hi: "m \<le> 2 ^ Suc j"
    unfolding j_def by linarith+
  have "1 / a \<le> of_int \<lceil>1 / a\<rceil>" by (rule le_of_int_ceiling)
  also have "\<dots> = rat_of_nat m" using ce by simp
  also from hi have "\<dots> \<le> rat_of_nat (2 ^ Suc j)" by (simp only: of_nat_le_iff)
  finally have "1 / a \<le> 2 ^ Suc j" by simp
  with assms have 1: "1 / 2 ^ Suc j \<le> a" by (simp add: field_simps)
  from lo have "rat_of_nat (2 ^ j) \<le> rat_of_nat (m - 1)" by (simp only: of_nat_le_iff)
  also from m have "\<dots> = of_int \<lceil>1 / a\<rceil> - 1" using ce by (simp add: of_nat_diff)
  also have "\<dots> < 1 / a" using ceiling_correct [of "1 / a"] by linarith
  finally have "2 ^ j < 1 / a" by simp
  with assms have 2: "a < 1 / 2 ^ j" by (simp add: field_simps)
  have il: "ilog2 a = - (int j + 1)"
    using False by (simp add: ilog2_def m_def j_def)
  have p1: "pow2 (- (int j + 1)) = 1 / 2 ^ Suc j"
    by (simp add: pow2_def nat_add_distrib)
  have p2: "pow2 (- (int j + 1) + 1) = 1 / 2 ^ j"
    by (cases j) (simp_all add: pow2_def nat_add_distrib)
  from 1 2 show ?thesis unfolding il p1 p2 by simp
qed

lemma roundHalfEven_error: "\<bar>of_int (roundHalfEven x) - x\<bar> \<le> 1 / 2"
  unfolding roundHalfEven_def Let_def
  using floor_correct [of x] by (auto simp: abs_le_iff)

text \<open>
  In the normal range the rounded number is within half a unit in the last place: the
  relative error of a product is at most \<open>2 ^ -53\<close>.
\<close>

lemma fl_error:
  assumes "pow2 (- 1022) \<le> q" and "fl q = Finite x"
  shows "\<bar>x - q\<bar> \<le> q / 2 ^ 53"
proof -
  have q: "0 < q" using assms(1) pow2_pos [of "- 1022"] by linarith
  define k where "k = ilog2 q"
  from ilog2_bounds [OF q] have lo: "pow2 k \<le> q" and hi: "q < pow2 (k + 1)"
    by (simp_all add: k_def)
  have "- 1022 \<le> k"
  proof (rule ccontr)
    assume "\<not> - 1022 \<le> k"
    then have "k + 1 \<le> - 1022" by simp
    then have "pow2 (k + 1) \<le> pow2 (- 1022)"
      by (rule pow2_mono)
    with hi assms(1) show False by simp
  qed
  then have e: "max (k - 52) (- 1074) = k - 52" by simp
  define r where "r = of_int (roundHalfEven (q / pow2 (k - 52))) * pow2 (k - 52)"
  from assms(2) q have "x = r"
    by (simp add: fl_def Let_def k_def [symmetric] e r_def split: if_splits)
  have "\<bar>r - q\<bar> = \<bar>of_int (roundHalfEven (q / pow2 (k - 52))) - q / pow2 (k - 52)\<bar> * pow2 (k - 52)"
  proof -
    have p: "0 < pow2 (k - 52)" by (rule pow2_pos)
    then have "r - q = (of_int (roundHalfEven (q / pow2 (k - 52))) - q / pow2 (k - 52)) * pow2 (k - 52)"
      by (simp add: r_def left_diff_distrib)
    with p show ?thesis by (simp add: abs_mult)
  qed
  also have "\<dots> \<le> 1 / 2 * pow2 (k - 52)"
    using roundHalfEven_error [of "q / pow2 (k - 52)"] pow2_pos [of "k - 52"]
    by (intro mult_right_mono) simp_all
  also have "\<dots> = pow2 k / 2 ^ 53"
    using pow2_add [of "k - 52" 52] by (simp add: pow2_def)
  also from lo have "\<dots> \<le> q / 2 ^ 53" by (simp add: divide_right_mono)
  finally show ?thesis using \<open>x = r\<close> by simp
qed

lemma number_le_not_gt: "number_le a b \<Longrightarrow> \<not> number_gt a b"
  by (cases a; cases b) simp_all

lemma digits_small: "n < 10 \<Longrightarrow> digits n = [digitChars ! n]"
  by (simp add: digits.simps [of n])

lemma digits_step: "10 \<le> n \<Longrightarrow> digits n = digits (n div 10) @ [digitChars ! (n mod 10)]"
  by (simp add: digits.simps [of n])

lemma length_digits: "0 < length (digits n)"
  by (subst digits.simps) simp

text \<open>
  \<open>toFixed(1)\<close> below \<open>10 ^ 21\<close>: a sign, the digits of the integer part of the
  rounded tenths, a point, and one more digit.
\<close>

lemma toFixed_1:
  assumes "\<bar>x\<bar> < 10 ^ 21"
  shows "toFixed toStr 1 (Finite x) =
    (if x < 0 then ''-'' else []) @ digits (nat \<lfloor>\<bar>x\<bar> * 10 + 1 / 2\<rfloor> div 10) @ ''.'' @
      [digitChars ! (nat \<lfloor>\<bar>x\<bar> * 10 + 1 / 2\<rfloor> mod 10)]"
proof -
  define n where "n = nat \<lfloor>\<bar>x\<bar> * 10 + 1 / 2\<rfloor>"
  from assms have big: "\<not> 10 ^ 21 \<le> \<bar>x\<bar>" by simp
  show ?thesis
  proof (cases "n < 10")
    case True
    then have "digits n = [digitChars ! n]" "digits (n div 10) = ''0''"
      by (simp_all add: digits.simps [of n] digits.simps [of 0] digitChars_def)
    with True big show ?thesis
      by (simp add: toFixed_def Let_def n_def [symmetric])
  next
    case False
    then have "digits n = digits (n div 10) @ [digitChars ! (n mod 10)]"
      by (simp add: digits.simps [of n])
    with length_digits [of "n div 10"] big show ?thesis
      by (simp add: toFixed_def Let_def n_def [symmetric])
  qed
qed

lemma floor_eval: "of_int z \<le> x \<Longrightarrow> x < of_int z + 1 \<Longrightarrow> nat \<lfloor>x\<rfloor> = nat z"
  for x :: rat
  by (simp add: floor_unique)

text \<open>The constant \<open>0.000621371\<close> as a binary64 number, and 1609 metres in miles.\<close>

lemma mileFactor_eq: "mileFactor = Finite (5731135905912489 / 9223372036854775808)"
  unfolding mileFactor_def
  using fl_eval [of "621371 / 1000000000" "- 11" 5731135905912489]
  by (simp add: pow2_def)

lemma number_times_1609:
  "number_times (Finite 1609) mileFactor = Finite (9005271164661323 / 9007199254740992)"
  unfolding mileFactor_eq
  using fl_eval [of "1609 * (5731135905912489 / 9223372036854775808)" "- 1" 9005271164661323]
  by (simp add: pow2_def)

lemma milesText_1609: "milesText toStr (Finite 1609) = ''1.0 mi''"
proof -
  have "nat \<lfloor>\<bar>9005271164661323 / 9007199254740992 :: rat\<bar> * 10 + 1 / 2\<rfloor> = nat 10"
    by (rule floor_eval) simp_all
  then have "toFixed toStr 1 (Finite (9005271164661323 / 9007199254740992)) = ''1.0''"
    by (subst toFixed_1) (simp_all add: digits_small digits_step digitChars_def)
  then show ?thesis
    by (simp add: milesText_def number_times_1609)
qed


section \<open>The loop over the steps\<close>

text \<open>
  The \<open>forEach\<close> loop appends, in order, one entry for every step that passes
  \<open>keepsStep\<close>, numbered from the value of the counter on.
\<close>

lemma visitStep_keeps:
  "visitStep toStr st (acc, c) =
     (if keepsStep st then (acc @ [entryOf toStr c st], Suc c) else (acc, c))"
  by (simp add: visitStep_def keepsStep_def entryOf_def Let_def split: option.splits)

lemma forEachStep_filter:
  "forEachStep toStr sts (acc, c) =
     (acc @ entriesFrom toStr c (filter keepsStep sts), c + length (filter keepsStep sts))"
  by (induction sts arbitrary: acc c) (simp_all add: visitStep_keeps)

lemma simplifySteps_filter:
  "simplifySteps toStr leg =
     (if filter keepsStep (leg_steps leg) = [] then [directRoute toStr leg]
      else entriesFrom toStr 1 (filter keepsStep (leg_steps leg)))"
proof (cases "filter keepsStep (leg_steps leg)")
  case Nil
  then show ?thesis
    by (simp add: simplifySteps_def forEachStep_filter directRoute_def)
next
  case (Cons st sts)
  then show ?thesis
    by (simp add: simplifySteps_def forEachStep_filter)
qed






section \<open>The sample steps\<close>

lemma lower_I5: "toLowerCase ''Continue on I-5'' = ''continue on i-5''"
  by code_simp

lemma match_I5: "roadMatch ''continue on i-5'' = Some ''i''"
  by code_simp

lemma includes_I5: "includes_str ''continue on i-5'' ''i-''"
  by code_simp



lemma lower_Main: "toLowerCase ''Turn left onto Main St'' = ''turn left onto main st''"
  by code_simp


lemma significant_Main: "isSignificant ''turn left onto main st'' (Finite 300) = False"
  by code_simp

lemma lower_Merge101:
  "toLowerCase ''Merge onto Highway 101, then keep left'' = ''merge onto highway 101, then keep left''"
  by code_simp

lemma match_Merge101: "roadMatch ''merge onto highway 101, then keep left'' = Some ''h''"
  by code_simp

lemma includes_Merge101: "includes_str ''merge onto highway 101, then keep left'' ''highway''"
  by code_simp

lemma trim_single: "trim ''i'' = ''i'' \<and> trim ''h'' = ''h''"
  by code_simp

lemma keeps_stepI5: "keepsStep stepI5"
  by (simp add: keepsStep_def stepI5_def mapboxStep_def lower_I5 match_I5 isSignificant_def includes_I5)

lemma entryOf_stepI5:
  "entryOf toStr k stepI5 = \<lparr>step = k, instruction = ''i'', distance = ''1.0 mi''\<rparr>"
  by (simp add: entryOf_def stepI5_def mapboxStep_def lower_I5 match_I5 trim_single milesText_1609)



lemma keeps_stepMerge101: "keepsStep stepMerge101"
  by (simp add: keepsStep_def stepMerge101_def mapboxStep_def lower_Merge101 match_Merge101
      isSignificant_def includes_Merge101)

lemma entryOf_stepMerge101:
  "entryOf toStr k stepMerge101 = \<lparr>step = k, instruction = ''h'', distance = ''1.0 mi''\<rparr>"
  by (simp add: entryOf_def stepMerge101_def mapboxStep_def lower_Merge101 match_Merge101
      trim_single milesText_1609)


section \<open>The simplified directions\<close>

text \<open>
  C1. The road name extracted from the step \<open>Continue on I-5\<close> is the single code unit
  \<open>i\<close>, and not the text \<open>i-5\<close> that follows the preposition up to the end of the
  instruction: a leg with this one step, 1609 metres long, is displayed as the one entry
  \<open>1, i, 1.0 mi\<close>. By \<open>roadMatch_one_code_unit\<close> the same happens for every instruction.
\<close>

theorem road_name_of_continue_on_I5:
  "simplifySteps toStr
     \<lparr>leg_steps = [mapboxStep ''Continue on I-5'' 1609], leg_distance = Finite 1609\<rparr> =
   [\<lparr>step = 1, instruction = ''i'', distance = ''1.0 mi''\<rparr>]"
  using keeps_stepI5 entryOf_stepI5 [of toStr 1]
  by (simp add: simplifySteps_filter stepI5_def [symmetric])






text \<open>
  C4. A step whose lower-cased instruction contains none of the seven keywords and whose
  distance is at most 1000 is not included: the output for a leg is the same with the
  step and without it.
\<close>

theorem insignificant_step_excluded:
  assumes "\<forall>k \<in> set significanceKeywords.
             \<not> includes_str (toLowerCase (maneuver_instruction (step_maneuver st))) k"
    and "number_le (step_distance st) (Finite 1000)"
  shows "\<not> keepsStep st \<and>
         simplifySteps toStr \<lparr>leg_steps = pre @ st # post, leg_distance = d\<rparr> =
         simplifySteps toStr \<lparr>leg_steps = pre @ post, leg_distance = d\<rparr>"
proof -
  from assms(2) have "\<not> number_gt (step_distance st) (Finite 1000)"
    by (rule number_le_not_gt)
  with assms(1) have "\<not> keepsStep st"
    by (simp add: keepsStep_def isSignificant_def significanceKeywords_def Let_def)
  then show ?thesis
    by (simp add: simplifySteps_filter directRoute_def)
qed

theorem insignificant_step_excluded_witness:
  "number_le (step_distance stepMain) (Finite 1000) \<and> \<not> keepsStep stepMain \<and>
   simplifySteps (\<lambda>x. []) \<lparr>leg_steps = [stepI5] @ stepMain # [stepMerge101], leg_distance = Finite 1609\<rparr> =
   simplifySteps (\<lambda>x. []) \<lparr>leg_steps = [stepI5] @ [stepMerge101], leg_distance = Finite 1609\<rparr> \<and>
   simplifySteps (\<lambda>x. []) \<lparr>leg_steps = [stepI5] @ [stepMerge101], leg_distance = Finite 1609\<rparr> =
     [\<lparr>step = 1, instruction = ''i'', distance = ''1.0 mi''\<rparr>,
      \<lparr>step = 2, instruction = ''h'', distance = ''1.0 mi''\<rparr>]"
  using insignificant_step_excluded [of stepMain "\<lambda>x. []" "[stepI5]" "[stepMerge101]" "Finite 1609"]
    significant_Main
  by (simp add: stepMain_def mapboxStep_def lower_Main isSignificant_def significanceKeywords_def
      simplifySteps_filter keeps_stepI5 keeps_stepMerge101 entryOf_stepI5 entryOf_stepMerge101)




section \<open>The selection state machine\<close>

lemma mapRef_locatedApp: "mapRef locatedApp = Some \<lparr>center = home, routeSource = None\<rparr>"
  by (simp add: locatedApp_def mount_def initialApp_def mapEffect_def geolocationEffect_def
      geolocationCallback_def mapCleanup_def Let_def)

lemma currentStep_locatedApp: "currentStep locatedApp = Start"
  by (simp add: locatedApp_def mount_def initialApp_def mapEffect_def geolocationEffect_def
      geolocationCallback_def mapCleanup_def Let_def)

lemma mapRef_pickedApp: "mapRef pickedApp = Some \<lparr>center = home, routeSource = None\<rparr>"
  by (simp add: pickedApp_def handleMapClick_def mapRef_locatedApp currentStep_locatedApp)

lemma currentStep_pickedApp: "currentStep pickedApp = End"
  by (simp add: pickedApp_def handleMapClick_def mapRef_locatedApp currentStep_locatedApp)

lemma mapRef_readyApp: "mapRef readyApp = Some \<lparr>center = home, routeSource = None\<rparr>"
  by (simp add: readyApp_def handleMapClick_def mapRef_pickedApp currentStep_pickedApp)

lemma currentStep_readyApp: "currentStep readyApp = Complete"
  by (simp add: readyApp_def handleMapClick_def mapRef_pickedApp currentStep_pickedApp)

lemma markers_readyApp:
  "startMarkerRef readyApp = Some pointA \<and> endMarkerRef readyApp = Some pointB \<and>
   startLocation readyApp \<noteq> [] \<and> endLocation readyApp \<noteq> [] \<and> \<not> isLoading readyApp \<and>
   requests readyApp = [] \<and> alerts readyApp = [] \<and> directions readyApp = None"
  by (simp add: readyApp_def pickedApp_def handleMapClick_def mapRef_pickedApp [unfolded pickedApp_def]
      currentStep_pickedApp [unfolded pickedApp_def] mapRef_locatedApp currentStep_locatedApp coordsText_def)
    (simp add: locatedApp_def mount_def initialApp_def mapEffect_def geolocationEffect_def
      geolocationCallback_def mapCleanup_def Let_def)

lemma loadingApp_eq:
  "loadingApp = readyApp\<lparr>isLoading := True, requests := [(pointA, pointB)]\<rparr>"
  using markers_readyApp by (simp add: loadingApp_def handleSubmit_def)

text \<open>
  C6. A press on the map (there is a map) moves the selection one state forward and no
  further than \<open>Complete\<close>: from \<open>Start\<close> it records the point as the start marker and the
  start text and leaves the end ones alone; from \<open>End\<close> it records it as the end marker and
  the end text and leaves the start ones alone; in \<open>Complete\<close> it changes nothing at all.
  Requesting directions never changes the selection state. \<open>resetSelection\<close> brings the
  state back to \<open>Start\<close> and clears both markers and both texts.
\<close>

theorem selection_state_machine:
  assumes "mapRef s \<noteq> None"
  shows
    "(currentStep s = Start \<longrightarrow>
        (let s' = handleMapClick toStr c s
         in currentStep s' = End \<and> startMarkerRef s' = Some c \<and>
            startLocation s' = coordsText toStr c \<and>
            endMarkerRef s' = endMarkerRef s \<and> endLocation s' = endLocation s)) \<and>
     (currentStep s = End \<longrightarrow>
        (let s' = handleMapClick toStr c s
         in currentStep s' = Complete \<and> endMarkerRef s' = Some c \<and>
            endLocation s' = coordsText toStr c \<and>
            startMarkerRef s' = startMarkerRef s \<and> startLocation s' = startLocation s)) \<and>
     (currentStep s = Complete \<longrightarrow> handleMapClick toStr c s = s) \<and>
     stepRank (currentStep (handleMapClick toStr c s)) = min 2 (Suc (stepRank (currentStep s))) \<and>
     currentStep (handleSubmit s) = currentStep s \<and>
     currentStep (handleSubmit_resume toStr res s) = currentStep s \<and>
     (let r = resetSelection s
      in currentStep r = Start \<and> startMarkerRef r = None \<and> endMarkerRef r = None \<and>
         startLocation r = [] \<and> endLocation r = [])"
  using assms
  by (cases "currentStep s")
    (auto simp: handleMapClick_def resetSelection_def Let_def handleSubmit_def
      handleSubmit_resume_def catchError_def drawRoute_def
      split: option.splits list.splits FetchResult.splits)

theorem selection_state_machine_witness:
  "mapRef locatedApp \<noteq> None \<and> currentStep locatedApp = Start \<and>
   currentStep pickedApp = End \<and> startMarkerRef pickedApp = Some pointA \<and>
   startLocation pickedApp = coordsText (\<lambda>x. []) pointA \<and>
   currentStep readyApp = Complete \<and> endMarkerRef readyApp = Some pointB \<and>
   startMarkerRef readyApp = Some pointA \<and>
   handleMapClick (\<lambda>x. []) home readyApp = readyApp \<and>
   currentStep (resetSelection readyApp) = Start \<and>
   startMarkerRef (resetSelection readyApp) = None \<and>
   endMarkerRef (resetSelection readyApp) = None"
  using selection_state_machine [of locatedApp "\<lambda>x. []" pointA NetworkFailure]
    selection_state_machine [of pickedApp "\<lambda>x. []" pointB NetworkFailure]
    selection_state_machine [of readyApp "\<lambda>x. []" home NetworkFailure]
  by (simp add: mapRef_locatedApp currentStep_locatedApp mapRef_pickedApp currentStep_pickedApp
      mapRef_readyApp currentStep_readyApp Let_def pickedApp_def [symmetric]
      readyApp_def [symmetric])


section \<open>Requesting directions\<close>

text \<open>
  C7. When the fetch rejects, or resolves to a response that is not \<open>ok\<close>, the rest of
  \<open>handleSubmit\<close> shows one alert, clears \<open>isLoading\<close>, and leaves the directions, the map
  with its drawn route and the list of requests sent as they were: no second request, no
  partial result.
\<close>

theorem fetch_failure:
  assumes "res = NetworkFailure \<or> res = HttpResponse False body"
  shows
    "(let s' = handleSubmit_resume toStr res s
      in alerts s' = alerts s @ [''Failed to calculate route. Please try again.''] \<and>
         isLoading s' = False \<and> directions s' = directions s \<and>
         mapRef s' = mapRef s \<and> requests s' = requests s)"
  using assms by (auto simp: handleSubmit_resume_def catchError_def Let_def)

theorem fetch_failure_witness:
  "isLoading loadingApp \<and>
   alerts (handleSubmit_resume (\<lambda>x. []) NetworkFailure loadingApp) =
     [''Failed to calculate route. Please try again.''] \<and>
   isLoading (handleSubmit_resume (\<lambda>x. []) NetworkFailure loadingApp) = False \<and>
   directions (handleSubmit_resume (\<lambda>x. []) (HttpResponse False None) loadingApp) = None \<and>
   requests (handleSubmit_resume (\<lambda>x. []) (HttpResponse False None) loadingApp) =
     [(pointA, pointB)]"
  using fetch_failure [of NetworkFailure None "\<lambda>x. []" loadingApp]
    fetch_failure [of "HttpResponse False None" None "\<lambda>x. []" loadingApp]
    markers_readyApp
  by (simp add: Let_def loadingApp_eq)

text \<open>
  C10. When the response is \<open>ok\<close> and its body has no \<open>routes\<close> or an empty list of them,
  the rest of \<open>handleSubmit\<close> shows no alert, clears \<open>isLoading\<close>, and leaves the directions
  and the map with its drawn route as they were.
\<close>

theorem empty_routes:
  assumes "routes data = None \<or> routes data = Some []"
  shows
    "(let s' = handleSubmit_resume toStr (HttpResponse True (Some data)) s
      in alerts s' = alerts s \<and> isLoading s' = False \<and> directions s' = directions s \<and>
         mapRef s' = mapRef s)"
  using assms by (auto simp: handleSubmit_resume_def Let_def)

theorem empty_routes_witness:
  "alerts (handleSubmit_resume (\<lambda>x. []) (HttpResponse True (Some \<lparr>routes = Some []\<rparr>)) loadingApp) = [] \<and>
   isLoading (handleSubmit_resume (\<lambda>x. []) (HttpResponse True (Some \<lparr>routes = None\<rparr>)) loadingApp) = False \<and>
   directions (handleSubmit_resume (\<lambda>x. []) (HttpResponse True (Some \<lparr>routes = None\<rparr>)) loadingApp) = None"
  using empty_routes [of "\<lparr>routes = Some []\<rparr>" "\<lambda>x. []" loadingApp]
    empty_routes [of "\<lparr>routes = None\<rparr>" "\<lambda>x. []" loadingApp]
    markers_readyApp
  by (simp add: Let_def loadingApp_eq)

text \<open>
  C9. While \<open>isLoading\<close> is set the submit button is disabled, so submitting the form
  does nothing: the state, and with it the list of requests sent, is unchanged.
\<close>

theorem no_submission_while_loading:
  assumes "isLoading s"
  shows "submitForm s = s \<and> requests (submitForm s) = requests s"
  using assms by (simp add: submitForm_def submitDisabled_def)

theorem no_submission_while_loading_witness:
  "isLoading loadingApp \<and> requests (submitForm readyApp) = [(pointA, pointB)] \<and>
   submitForm loadingApp = loadingApp \<and> requests (submitForm loadingApp) = [(pointA, pointB)]"
  using no_submission_while_loading [of loadingApp] markers_readyApp currentStep_readyApp
  by (simp add: loadingApp_eq submitForm_def submitDisabled_def loadingApp_def [symmetric])

text \<open>
  The guard is the button's: \<open>handleSubmit\<close> does not read \<open>isLoading\<close>, and would send
  a second request if it were called while the first is in flight.
\<close>

lemma handleSubmit_ignores_isLoading:
  "requests (handleSubmit loadingApp) = [(pointA, pointB), (pointA, pointB)]"
  using markers_readyApp by (simp add: loadingApp_eq handleSubmit_def)


section \<open>Without a position\<close>

lemma mount_Unsupported:
  "mount Unsupported =
     initialApp\<lparr>console := [''Geolocation is not supported by your browser'', ''userCoords changed:'']\<rparr>"
  by (simp add: mount_def initialApp_def mapEffect_def geolocationEffect_def
      geolocationCallback_def Let_def)

lemma mount_Denied:
  "mount Denied =
     initialApp\<lparr>console := [''User location obtained:'', ''userCoords changed:'',
                  ''Unable to retrieve your location'', ''userCoords changed:''],
       loadingLocation := False\<rparr>"
  by (simp add: mount_def initialApp_def mapEffect_def geolocationEffect_def
      geolocationCallback_def mapCleanup_def Let_def)

lemma mount_Position:
  "mount (Position p) =
     initialApp\<lparr>console := [''User location obtained:'', ''userCoords changed:'',
                  ''userCoords changed:''],
       userCoords := Some p, loadingLocation := False,
       mapRef := Some \<lparr>center = p, routeSource = None\<rparr>\<rparr>"
  by (simp add: mount_def initialApp_def mapEffect_def geolocationEffect_def
      geolocationCallback_def mapCleanup_def Let_def)

text \<open>
  C8. When there is no geolocation, or the position is refused, the failure is logged
  and no alert is shown; no map is created, so a press selects nothing and the form
  submits nothing. The map is created, centred on the position, once there is one.
\<close>

theorem no_map_without_position:
  assumes "g = Unsupported \<or> g = Denied"
  shows "alerts (mount g) = [] \<and> mapRef (mount g) = None \<and> currentStep (mount g) = Start \<and>
         handleMapClick toStr c (mount g) = mount g \<and> submitForm (mount g) = mount g \<and>
         (g = Unsupported \<longrightarrow>
            ''Geolocation is not supported by your browser'' \<in> set (console (mount g))) \<and>
         (g = Denied \<longrightarrow> ''Unable to retrieve your location'' \<in> set (console (mount g))) \<and>
         mapRef (mount (Position p)) = Some \<lparr>center = p, routeSource = None\<rparr>"
proof -
  from assms consider "g = Unsupported" | "g = Denied" by blast
  then show ?thesis
  proof cases
    case 1
    then show ?thesis
      by (simp add: mount_Unsupported mount_Position initialApp_def handleMapClick_def
          submitForm_def submitDisabled_def)
  next
    case 2
    then show ?thesis
      by (simp add: mount_Denied mount_Position initialApp_def handleMapClick_def
          submitForm_def submitDisabled_def)
  qed
qed

theorem no_map_without_position_witness:
  "mapRef (mount Unsupported) = None \<and> mapRef (mount Denied) = None \<and>
   alerts (mount Denied) = [] \<and>
   ''Unable to retrieve your location'' \<in> set (console (mount Denied)) \<and>
   ''Geolocation is not supported by your browser'' \<in> set (console (mount Unsupported)) \<and>
   mapRef (mount (Position home)) = Some \<lparr>center = home, routeSource = None\<rparr>"
  using no_map_without_position [of Unsupported "\<lambda>x. []" pointA home]
    no_map_without_position [of Denied "\<lambda>x. []" pointA home]
  by simp

text \<open>After a refusal the spinner is gone, and there is no map to press on.\<close>

theorem geolocation_denied_counterexample:
  "mapRef (mount Denied) = None \<and> loadingLocation (mount Denied) = False \<and>
   handleMapClick (\<lambda>x. []) pointA (mount Denied) = mount Denied \<and>
   currentStep (handleMapClick (\<lambda>x. []) pointA (mount Denied)) = Start"
  by (simp add: mount_Denied initialApp_def handleMapClick_def)

text \<open>Without geolocation the first effect returns early, and the spinner stays.\<close>

lemma spinner_stays_without_geolocation: "loadingLocation (mount Unsupported)"
  by (simp add: mount_Unsupported initialApp_def)

end
